theory Spec2Isabelle
  imports Complex_Main
begin

section \<open>The speed calculator of \<^verbatim>\<open>speed_calculator.py\<close>\<close>

text \<open>
  The class \<^verbatim>\<open>SpeedCalculator\<close> correlates licence-plate detections of two cameras.
  Its attributes become the record \<open>calc\<close>, its dictionaries become records, each method
  takes the object and returns it updated. Python's floats are read as real numbers: the
  model follows the comparisons and the order of the operations of the source, not the
  rounding of the hardware. Everything the methods read from outside (the wall clock,
  the formatted date, whether the write of the violations file works) is handed in as a
  value of the record \<open>env\<close>.
\<close>

subsection \<open>Data\<close>

text \<open>The value stored under a plate in \<^verbatim>\<open>self.pending_detections\<close>.\<close>

record pending_entry =
  camera_id :: int
  timestamp :: real
  image_path :: "string option"

text \<open>
  The measurement dictionary built in \<^verbatim>\<open>process_detection\<close>; the field \<open>m_k\<close> is the
  key \<^verbatim>\<open>k\<close> of the source.
\<close>

record measurement =
  m_plate :: string
  m_camera1_time :: real
  m_camera2_time :: real
  m_time_diff_seconds :: real
  m_speed_ms :: real
  m_speed_kmh :: real
  m_distance_meters :: real
  m_camera1_image :: "string option"
  m_camera2_image :: "string option"
  m_measurement_time :: string
  m_over_speed_limit :: bool

text \<open>The violation dictionary built in \<^verbatim>\<open>_create_violation\<close>; \<open>v_k\<close> is the key \<^verbatim>\<open>k\<close>.\<close>

record violation =
  v_id :: nat
  v_plate :: string
  v_speed_kmh :: real
  v_speed_limit_kmh :: real
  v_timestamp :: string
  v_location :: string
  v_camera1_image :: "string option"
  v_camera2_image :: "string option"
  v_time_diff_seconds :: real
  v_fine_amount :: nat

text \<open>
  A value that \<^verbatim>\<open>json.load\<close> returns and that is not a list, kept as far as \<^verbatim>\<open>len\<close>
  looks at it: \<^verbatim>\<open>null\<close>, a boolean and a number have no length, a string has its
  characters and an object its keys.
\<close>

datatype json_other = JNull | JBool bool | JNumber real | JString string | JObject "string list"

text \<open>
  The file \<^verbatim>\<open>violations.json\<close>: it does not exist, it holds a list of violations, it
  holds another JSON value, or it holds something \<^verbatim>\<open>json.load\<close> rejects.
\<close>

datatype file_content = Absent | Stored "violation list" | StoredOther json_other | Unparsable

text \<open>How a call of \<^verbatim>\<open>save_violations\<close> ends: \<^verbatim>\<open>open\<close> or \<^verbatim>\<open>json.dump\<close> may raise.\<close>

datatype io_outcome = IoOk | OpenFails | DumpFails

record env =
  time_default :: real
  time_cleanup :: real
  measurement_time_now :: string
  save_outcome :: io_outcome

text \<open>
  \<open>time_default\<close> is the reading of \<^verbatim>\<open>time.time()\<close> that replaces a missing timestamp,
  \<open>time_cleanup\<close> the later reading taken by \<^verbatim>\<open>_cleanup_expired_detections\<close>, and
  \<open>measurement_time_now\<close> the string \<^verbatim>\<open>datetime.now().strftime(...)\<close>.
\<close>

record calc =
  distance_meters :: real
  speed_limit_kmh :: real
  pending_detections :: "string \<rightharpoonup> pending_entry"
  completed_detections :: "measurement list"
  detection_timeout :: real
  violations :: "violation list"
  violations_file :: file_content

text \<open>
  The object that the constructor leaves. In \<open>Calc c\<close> the attribute
  \<^verbatim>\<open>self.violations\<close> is the list \<open>violations c\<close>. In \<open>Miscast c j\<close> it is the value \<open>j\<close>,
  which is not a list; the other attributes are those of \<open>c\<close>, whose field
  \<open>violations\<close> is then not read. The methods that change the object are modelled on
  \<open>calc\<close>, the objects of the first kind.
\<close>

datatype speed_calculator = Calc calc | Miscast calc json_other

datatype py_error = ZeroDivisionError | ValueError | TypeError

record stats =
  total_measurements :: nat
  total_violations :: nat
  violation_percentage :: real
  average_speed :: real
  max_speed :: real

subsection \<open>Construction and persistence\<close>

text \<open>
  \<^verbatim>\<open>load_violations\<close> assigns what \<^verbatim>\<open>json.load\<close> returns to \<^verbatim>\<open>self.violations\<close> and
  only then takes its \<^verbatim>\<open>len\<close> for the log line; the \<^verbatim>\<open>except\<close> clause logs and does not
  undo the assignment. A file that does not parse raises before the assignment.
\<close>

definition load_violations :: "calc \<Rightarrow> speed_calculator" where
  "load_violations s =
     (case violations_file s of
        Absent \<Rightarrow> Calc s
      | Stored vs \<Rightarrow> Calc (s\<lparr>violations := vs\<rparr>)
      | StoredOther j \<Rightarrow> Miscast s j
      | Unparsable \<Rightarrow> Calc s)"

definition save_violations :: "env \<Rightarrow> calc \<Rightarrow> calc" where
  "save_violations e s =
     (case save_outcome e of
        IoOk \<Rightarrow> s\<lparr>violations_file := Stored (violations s)\<rparr>
      | OpenFails \<Rightarrow> s
      | DumpFails \<Rightarrow> s\<lparr>violations_file := Unparsable\<rparr>)"

text \<open>The attributes that \<^verbatim>\<open>__init__\<close> sets before it calls \<^verbatim>\<open>load_violations\<close>.\<close>

definition init_attributes :: "real \<Rightarrow> real \<Rightarrow> file_content \<Rightarrow> calc" where
  "init_attributes distance limit file =
     \<lparr>distance_meters = distance, speed_limit_kmh = limit,
      pending_detections = Map.empty, completed_detections = [],
      detection_timeout = 6.0, violations = [], violations_file = file\<rparr>"

definition init :: "real \<Rightarrow> real \<Rightarrow> file_content \<Rightarrow> speed_calculator" where
  "init distance limit file = load_violations (init_attributes distance limit file)"

subsection \<open>Plate normalisation\<close>

text \<open>
  \<^verbatim>\<open>plate_text.strip().upper().replace(" ", "")\<close> on ASCII text: \<^verbatim>\<open>strip\<close> removes the
  characters for which \<^verbatim>\<open>str.isspace\<close> holds from both ends, \<^verbatim>\<open>upper\<close> maps
  \<^verbatim>\<open>a\<close>..\<^verbatim>\<open>z\<close> to \<^verbatim>\<open>A\<close>..\<^verbatim>\<open>Z\<close>, \<^verbatim>\<open>replace\<close> deletes every blank.
\<close>

definition isspace :: "char \<Rightarrow> bool" where
  "isspace c = (of_char c \<in> {9, 10, 11, 12, 13, 28, 29, 30, 31, 32 :: nat})"

definition strip :: "string \<Rightarrow> string" where
  "strip s = rev (dropWhile isspace (rev (dropWhile isspace s)))"

definition upper_char :: "char \<Rightarrow> char" where
  "upper_char c =
     (let n = of_char c :: nat in if 97 \<le> n \<and> n \<le> 122 then char_of (n - 32) else c)"

definition upper :: "string \<Rightarrow> string" where
  "upper s = map upper_char s"

definition remove_blanks :: "string \<Rightarrow> string" where
  "remove_blanks s = filter (\<lambda>c. c \<noteq> CHR '' '') s"

definition normalize_plate :: "string \<Rightarrow> string" where
  "normalize_plate plate_text = remove_blanks (upper (strip plate_text))"

subsection \<open>Fines and violations\<close>

definition calculate_fine :: "calc \<Rightarrow> real \<Rightarrow> nat" where
  "calculate_fine s speed_kmh =
     (let excess_speed = speed_kmh - speed_limit_kmh s in
      if excess_speed \<le> 10 then 100
      else if excess_speed \<le> 20 then 200
      else if excess_speed \<le> 30 then 400
      else 600)"

definition create_violation :: "env \<Rightarrow> measurement \<Rightarrow> calc \<Rightarrow> violation \<times> calc" where
  "create_violation e m s =
     (let v = \<lparr>v_id = length (violations s) + 1,
               v_plate = m_plate m,
               v_speed_kmh = m_speed_kmh m,
               v_speed_limit_kmh = speed_limit_kmh s,
               v_timestamp = m_measurement_time m,
               v_location = ''Test Location'',
               v_camera1_image = m_camera1_image m,
               v_camera2_image = m_camera2_image m,
               v_time_diff_seconds = m_time_diff_seconds m,
               v_fine_amount = calculate_fine s (m_speed_kmh m)\<rparr>
      in (v, save_violations e (s\<lparr>violations := violations s @ [v]\<rparr>)))"

subsection \<open>Processing a detection\<close>

text \<open>
  \<^verbatim>\<open>_cleanup_expired_detections\<close> collects the plates whose entry is older than the
  timeout at the clock reading \<open>current_time\<close> and deletes them.
\<close>

definition cleanup_expired_detections :: "real \<Rightarrow> calc \<Rightarrow> calc" where
  "cleanup_expired_detections current_time s =
     s\<lparr>pending_detections :=
         (\<lambda>plate. case pending_detections s plate of
                     None \<Rightarrow> None
                   | Some d \<Rightarrow>
                       if current_time - timestamp d > detection_timeout s then None
                       else Some d)\<rparr>"

definition new_entry :: "int \<Rightarrow> real \<Rightarrow> string option \<Rightarrow> pending_entry" where
  "new_entry cam ts img = \<lparr>camera_id = cam, timestamp = ts, image_path = img\<rparr>"

definition build_measurement ::
  "env \<Rightarrow> calc \<Rightarrow> string \<Rightarrow> pending_entry \<Rightarrow> real \<Rightarrow> string option \<Rightarrow> measurement" where
  "build_measurement e s plate pending ts img =
     (let time_diff = \<bar>ts - timestamp pending\<bar>;
          speed_ms = (if time_diff > 0 then distance_meters s / time_diff else 0);
          speed_kmh = speed_ms * 3.6
      in \<lparr>m_plate = plate,
          m_camera1_time = (if camera_id pending = 1 then timestamp pending else ts),
          m_camera2_time = (if camera_id pending = 2 then timestamp pending else ts),
          m_time_diff_seconds = time_diff,
          m_speed_ms = speed_ms,
          m_speed_kmh = speed_kmh,
          m_distance_meters = distance_meters s,
          m_camera1_image = (if camera_id pending = 1 then image_path pending else img),
          m_camera2_image = (if camera_id pending = 2 then image_path pending else img),
          m_measurement_time = measurement_time_now e,
          m_over_speed_limit = (speed_kmh > speed_limit_kmh s)\<rparr>)"

text \<open>The default of the parameter \<^verbatim>\<open>timestamp\<close>: \<^verbatim>\<open>None\<close> stands for the current time.\<close>

definition effective_timestamp :: "env \<Rightarrow> real option \<Rightarrow> real" where
  "effective_timestamp e tstamp = (case tstamp of None \<Rightarrow> time_default e | Some t \<Rightarrow> t)"

text \<open>
  \<^verbatim>\<open>process_detection\<close>. The three places of the source that store the new detection
  are the three occurrences of \<open>stored\<close>: the update of the same-camera branch, and the
  final assignment, reached when the plate is not pending and also when the test of the
  time window or both camera tests fail (those branches have no \<^verbatim>\<open>return\<close>).
\<close>

definition process_detection ::
  "env \<Rightarrow> int \<Rightarrow> string \<Rightarrow> real option \<Rightarrow> string option \<Rightarrow> calc
     \<Rightarrow> measurement option \<times> calc" where
  "process_detection e cam plate_text tstamp img s0 =
     (let ts = effective_timestamp e tstamp;
          plate = normalize_plate plate_text;
          s = cleanup_expired_detections (time_cleanup e) s0;
          other_camera_id = (if cam = 1 then 2 else 1 :: int);
          stored = s\<lparr>pending_detections := (pending_detections s)(plate \<mapsto> new_entry cam ts img)\<rparr>
      in case pending_detections s plate of
           None \<Rightarrow> (None, stored)
         | Some pending \<Rightarrow>
             if camera_id pending = other_camera_id then
               (let time_diff = \<bar>ts - timestamp pending\<bar> in
                if 0.1 \<le> time_diff \<and> time_diff \<le> detection_timeout s then
                  (let m = build_measurement e s plate pending ts img;
                       s1 = s\<lparr>completed_detections := completed_detections s @ [m]\<rparr>;
                       s2 = (if m_speed_kmh m > speed_limit_kmh s1
                             then snd (create_violation e m s1) else s1);
                       s3 = s2\<lparr>pending_detections := (pending_detections s2)(plate := None)\<rparr>
                   in (Some m, s3))
                else (None, stored))
             else if camera_id pending = cam then (None, stored)
             else (None, stored))"

text \<open>A run of calls, each with its own reading of the environment.\<close>

record detection =
  d_env :: env
  d_camera :: int
  d_plate :: string
  d_time :: "real option"
  d_image :: "string option"

fun process_all :: "detection list \<Rightarrow> calc \<Rightarrow> calc" where
  "process_all [] s = s"
| "process_all (d # ds) s =
     process_all ds
       (snd (process_detection (d_env d) (d_camera d) (d_plate d) (d_time d) (d_image d) s))"

subsection \<open>Queries\<close>

text \<open>
  The slice \<^verbatim>\<open>xs[i:]\<close>: a negative start counts from the end, and the start is clipped
  to the bounds of the list.
\<close>

definition slice_from :: "int \<Rightarrow> 'a list \<Rightarrow> 'a list" where
  "slice_from i xs =
     (let n = int (length xs);
          start = (if i < 0 then max (i + n) 0 else min i n)
      in drop (nat start) xs)"

definition get_recent_measurements :: "int \<Rightarrow> calc \<Rightarrow> measurement list" where
  "get_recent_measurements count s = slice_from (- count) (completed_detections s)"

definition get_violations :: "int option \<Rightarrow> calc \<Rightarrow> violation list" where
  "get_violations count s =
     (case count of
        None \<Rightarrow> violations s
      | Some c \<Rightarrow> slice_from (- c) (violations s))"

definition truediv :: "real \<Rightarrow> real \<Rightarrow> py_error + real" where
  "truediv a b = (if b = 0 then Inl ZeroDivisionError else Inr (a / b))"

definition max_of :: "real list \<Rightarrow> py_error + real" where
  "max_of xs = (case xs of [] \<Rightarrow> Inl ValueError | x # ys \<Rightarrow> Inr (fold max ys x))"

text \<open>
  \<^verbatim>\<open>len(self.violations)\<close>, and the attributes of an object whatever its
  \<^verbatim>\<open>self.violations\<close> holds.
\<close>

definition len_violations :: "speed_calculator \<Rightarrow> py_error + nat" where
  "len_violations x =
     (case x of
        Calc c \<Rightarrow> Inr (length (violations c))
      | Miscast c j \<Rightarrow>
          (case j of
             JNull \<Rightarrow> Inl TypeError
           | JBool b \<Rightarrow> Inl TypeError
           | JNumber r \<Rightarrow> Inl TypeError
           | JString str \<Rightarrow> Inr (length str)
           | JObject keys \<Rightarrow> Inr (length keys)))"

definition attributes :: "speed_calculator \<Rightarrow> calc" where
  "attributes x = (case x of Calc c \<Rightarrow> c | Miscast c j \<Rightarrow> c)"

text \<open>
  \<^verbatim>\<open>get_statistics\<close> takes both lengths first; the test for an empty history comes
  after them.
\<close>

definition get_statistics :: "speed_calculator \<Rightarrow> py_error + stats" where
  "get_statistics x =
     (let n_measurements = length (completed_detections (attributes x)) in
      case len_violations x of
        Inl err \<Rightarrow> Inl err
      | Inr n_violations \<Rightarrow>
          if n_measurements = 0 then
            Inr \<lparr>total_measurements = 0, total_violations = 0, violation_percentage = 0,
                 average_speed = 0, max_speed = 0\<rparr>
          else
            (let speeds = map m_speed_kmh (completed_detections (attributes x)) in
             case truediv (sum_list speeds) (real (length speeds)) of
               Inl err \<Rightarrow> Inl err
             | Inr avg_speed \<Rightarrow>
                 (case (if speeds \<noteq> [] then max_of speeds else Inr 0) of
                    Inl err \<Rightarrow> Inl err
                  | Inr max_speed_v \<Rightarrow>
                      (case (if n_measurements > 0
                             then (case truediv (real n_violations) (real n_measurements) of
                                     Inl err \<Rightarrow> Inl err
                                   | Inr q \<Rightarrow> Inr (q * 100))
                             else Inr 0) of
                         Inl err \<Rightarrow> Inl err
                       | Inr percentage \<Rightarrow>
                           Inr \<lparr>total_measurements = n_measurements,
                                total_violations = n_violations,
                                violation_percentage = percentage,
                                average_speed = avg_speed,
                                max_speed = max_speed_v\<rparr>))))"

subsection \<open>A concrete calculator\<close>

text \<open>
  The inputs at which the theorems below are instantiated: an environment whose clock
  reads \<open>now\<close> and whose disk works, and a calculator with the cameras
  10 m apart and a limit of 72 km/h, which is 20 m/s, started without a violations file
  (the constructor then leaves \<open>Calc fresh\<close>).
\<close>

definition env_at :: "real \<Rightarrow> env" where
  "env_at now = \<lparr>time_default = now, time_cleanup = now,
                  measurement_time_now = ''2024-01-01 12:00:00'', save_outcome = IoOk\<rparr>"

definition fresh :: calc where
  "fresh = init_attributes 10 72 Absent"

text \<open>
  Calculators reached from \<open>fresh\<close>: \<open>pending_from cam\<close> has seen plate \<^verbatim>\<open>ABC123\<close> at
  time 0 on camera \<open>cam\<close>; \<open>speeding\<close> has then seen it on camera 2 at time 0.25, which is
  144 km/h; \<open>restarted\<close> is started on a violations file that holds one violation, and
  \<open>started_on_null\<close> on a file that holds \<^verbatim>\<open>null\<close>.
\<close>

definition pending_from :: "int \<Rightarrow> calc" where
  "pending_from cam =
     snd (process_detection (env_at 0) cam ''ABC123'' (Some 0) (Some ''a.jpg'') fresh)"

definition speeding :: calc where
  "speeding =
     snd (process_detection (env_at 0.25) 2 ''ABC123'' (Some 0.25) (Some ''b.jpg'') (pending_from 1))"

definition started_on_null :: speed_calculator where
  "started_on_null = init 10 72 (StoredOther JNull)"

definition restarted :: speed_calculator where
  "restarted =
     init 10 72
       (Stored [\<lparr>v_id = 1, v_plate = ''XYZ789'', v_speed_kmh = 144, v_speed_limit_kmh = 72,
                 v_timestamp = ''2024-01-01 12:00:00'', v_location = ''Test Location'',
                 v_camera1_image = None, v_camera2_image = None,
                 v_time_diff_seconds = 0.25, v_fine_amount = 600\<rparr>])"

text \<open>
  A run of four detections: two cars, each seen by both cameras 0.25 s apart, the second
  car by camera 2 first.
\<close>

definition seen :: "real \<Rightarrow> int \<Rightarrow> string \<Rightarrow> detection" where
  "seen t cam plate =
     \<lparr>d_env = env_at t, d_camera = cam, d_plate = plate, d_time = Some t, d_image = None\<rparr>"

definition two_cars :: "detection list" where
  "two_cars = [seen 0 1 ''ABC123'', seen 0.25 2 ''ABC123'', seen 1 2 ''XYZ789'', seen 1.25 1 ''XYZ789'']"

section \<open>Properties\<close>

subsection \<open>The sweep and the configuration\<close>

lemma cleanup_keeps_config:
  "distance_meters (cleanup_expired_detections now s) = distance_meters s"
  "speed_limit_kmh (cleanup_expired_detections now s) = speed_limit_kmh s"
  "detection_timeout (cleanup_expired_detections now s) = detection_timeout s"
  "completed_detections (cleanup_expired_detections now s) = completed_detections s"
  "violations (cleanup_expired_detections now s) = violations s"
  "violations_file (cleanup_expired_detections now s) = violations_file s"
  by (simp_all add: cleanup_expired_detections_def)

lemma cleanup_lookup:
  "pending_detections (cleanup_expired_detections now s) k =
     (case pending_detections s k of
        None \<Rightarrow> None
      | Some d \<Rightarrow> if now - timestamp d > detection_timeout s then None else Some d)"
  by (simp add: cleanup_expired_detections_def)

subsection \<open>The two outcomes of a call\<close>

text \<open>
  A call that returns \<^verbatim>\<open>None\<close> has swept the table and stored the new detection under
  the normalised plate; nothing else changes.
\<close>

lemma process_detection_None:
  assumes "process_detection e cam P tstamp img s = (None, s')"
  shows "s' = (cleanup_expired_detections (time_cleanup e) s)
            \<lparr>pending_detections :=
               (pending_detections (cleanup_expired_detections (time_cleanup e) s))
                 (normalize_plate P \<mapsto> new_entry cam (effective_timestamp e tstamp) img)\<rparr>"
  using assms
  by (simp add: process_detection_def Let_def split: option.splits if_splits)

lemma process_detection_None_fields:
  assumes "process_detection e cam P tstamp img s = (None, s')"
  shows "pending_detections s' (normalize_plate P) = Some (new_entry cam (effective_timestamp e tstamp) img)"
    and "distance_meters s' = distance_meters s"
    and "speed_limit_kmh s' = speed_limit_kmh s"
    and "detection_timeout s' = detection_timeout s"
    and "completed_detections s' = completed_detections s"
    and "violations s' = violations s"
    and "violations_file s' = violations_file s"
  using process_detection_None [OF assms] by (simp_all add: cleanup_keeps_config)


lemma process_detection_Some:
  assumes "process_detection e cam P ts img s = (Some m, s')"
  shows "\<exists>p s2. m = build_measurement e (cleanup_expired_detections (time_cleanup e) s)
                     (normalize_plate P) p (effective_timestamp e ts) img
          \<and> s2 = (cleanup_expired_detections (time_cleanup e) s)
                   \<lparr>completed_detections := completed_detections s @ [m]\<rparr>
          \<and> s' = (if m_speed_kmh m > speed_limit_kmh s
                   then snd (create_violation e m s2) else s2)
                  \<lparr>pending_detections :=
                     (pending_detections (if m_speed_kmh m > speed_limit_kmh s
                        then snd (create_violation e m s2) else s2))(normalize_plate P := None)\<rparr>"
  using assms
  by (auto simp add: process_detection_def Let_def cleanup_keeps_config
      split: option.splits if_splits)


lemma process_detection_Some_pending:
  assumes "process_detection e cam P tstamp img s = (Some m, s')"
  shows "pending_detections s' (normalize_plate P) = None"
  using assms
  by (auto simp add: process_detection_def Let_def create_violation_def
      save_violations_def split: option.splits if_splits io_outcome.splits)

lemma process_detection_config:
  "detection_timeout (snd (process_detection e cam P tstamp img s)) = detection_timeout s"
  "distance_meters (snd (process_detection e cam P tstamp img s)) = distance_meters s"
  "speed_limit_kmh (snd (process_detection e cam P tstamp img s)) = speed_limit_kmh s"
  by (simp_all add: process_detection_def Let_def cleanup_keeps_config create_violation_def
      save_violations_def split: option.splits io_outcome.splits)

lemma process_detection_pending_after:
  "pending_detections (snd (process_detection e cam P tstamp img s)) (normalize_plate P) = None
   \<or> pending_detections (snd (process_detection e cam P tstamp img s)) (normalize_plate P)
       = Some (new_entry cam (effective_timestamp e tstamp) img)"
proof (cases "fst (process_detection e cam P tstamp img s)")
  case None
  then have "process_detection e cam P tstamp img s = (None, snd (process_detection e cam P tstamp img s))"
    by (metis prod.collapse)
  then show ?thesis by (simp add: process_detection_None_fields(1))
next
  case (Some m)
  then have "process_detection e cam P tstamp img s = (Some m, snd (process_detection e cam P tstamp img s))"
    by (metis prod.collapse)
  then show ?thesis by (simp add: process_detection_Some_pending)
qed

lemma process_detection_other_keys:
  assumes "q \<noteq> normalize_plate P"
  shows "pending_detections (snd (process_detection e cam P tstamp img s)) q
           = pending_detections (cleanup_expired_detections (time_cleanup e) s) q"
  using assms
  by (simp add: process_detection_def Let_def create_violation_def
      save_violations_def split: option.splits io_outcome.splits)

lemma process_detection_no_other:
  assumes "\<And>p. pending_detections s (normalize_plate P) = Some p \<Longrightarrow>
             time_cleanup e - timestamp p \<le> detection_timeout s \<Longrightarrow>
             camera_id p \<noteq> (if cam = 1 then 2 else 1)"
  shows "fst (process_detection e cam P tstamp img s) = None"
  using assms
  by (auto simp add: process_detection_def Let_def cleanup_lookup split: option.splits if_splits)

subsection \<open>Violations\<close>

lemma create_violation_fields:
  "violations (snd (create_violation e m s)) = violations s @ [fst (create_violation e m s)]"
  "completed_detections (snd (create_violation e m s)) = completed_detections s"
  "save_outcome e = IoOk \<Longrightarrow>
     violations_file (snd (create_violation e m s))
       = Stored (violations s @ [fst (create_violation e m s)])"
  by (simp_all add: create_violation_def save_violations_def Let_def split: io_outcome.splits)

lemma create_violation_id:
  "v_id (fst (create_violation e m s)) = length (violations s) + 1"
  by (simp add: create_violation_def Let_def)


lemma process_detection_violations:
  "violations (snd (process_detection e cam P ts img s)) = violations s
   \<or> (\<exists>v. violations (snd (process_detection e cam P ts img s)) = violations s @ [v]
          \<and> v_id v = length (violations s) + 1)"
proof (cases "fst (process_detection e cam P ts img s)")
  case None
  then have "process_detection e cam P ts img s = (None, snd (process_detection e cam P ts img s))"
    by (metis prod.collapse)
  from process_detection_None_fields(6) [OF this] show ?thesis by simp
next
  case (Some m)
  then have "process_detection e cam P ts img s = (Some m, snd (process_detection e cam P ts img s))"
    by (metis prod.collapse)
  from process_detection_Some [OF this] show ?thesis
    by (auto simp add: cleanup_keeps_config create_violation_fields create_violation_id)
qed

lemma process_all_violations:
  "\<exists>new. violations (process_all ds s) = violations s @ new
         \<and> map v_id new = [length (violations s) + 1 ..< length (violations s) + 1 + length new]"
proof (induction ds arbitrary: s)
  case Nil
  show ?case by simp
next
  case (Cons d ds)
  let ?s1 = "snd (process_detection (d_env d) (d_camera d) (d_plate d) (d_time d) (d_image d) s)"
  from Cons.IH [of ?s1] obtain new where
    new: "violations (process_all ds ?s1) = violations ?s1 @ new"
      "map v_id new = [length (violations ?s1) + 1 ..< length (violations ?s1) + 1 + length new]"
    by blast
  from process_detection_violations [of "d_env d" "d_camera d" "d_plate d" "d_time d" "d_image d" s]
  show ?case
  proof
    assume "violations ?s1 = violations s"
    with new show ?thesis by auto
  next
    assume "\<exists>v. violations ?s1 = violations s @ [v] \<and> v_id v = length (violations s) + 1"
    then obtain v where v: "violations ?s1 = violations s @ [v]" "v_id v = length (violations s) + 1"
      by blast
    have "violations (process_all (d # ds) s) = violations s @ (v # new)"
      using new(1) v(1) by simp
    moreover have "map v_id (v # new)
        = [length (violations s) + 1 ..< length (violations s) + 1 + length (v # new)]"
    proof -
      have "[length (violations s) + 1 ..< length (violations s) + 1 + length (v # new)]
          = (length (violations s) + 1)
            # [length (violations s) + 2 ..< length (violations s) + 2 + length new]"
        by (subst upt_conv_Cons) simp_all
      moreover have "map v_id new
          = [length (violations s) + 2 ..< length (violations s) + 2 + length new]"
        using new(2) v(1) by simp
      ultimately show ?thesis using v(2) by simp
    qed
    ultimately show ?thesis by blast
  qed
qed

subsection \<open>Slices\<close>

lemma slice_from_last:
  "0 < n \<Longrightarrow> slice_from (- n) xs = drop (length xs - nat n) xs"
  by (auto simp add: slice_from_def Let_def max_def nat_diff_distrib' intro: arg_cong [where f = "\<lambda>k. drop k xs"])

lemma recent_measurements_last:
  "0 < n \<Longrightarrow>
     get_recent_measurements n s
       = drop (length (completed_detections s) - nat n) (completed_detections s)"
  by (simp add: get_recent_measurements_def slice_from_last)

lemma violations_last:
  "get_violations None s = violations s"
  "0 < n \<Longrightarrow> get_violations (Some n) s = drop (length (violations s) - nat n) (violations s)"
  by (simp_all add: get_violations_def slice_from_last)

subsection \<open>The concrete calculators\<close>

lemma normalize_ABC123: "normalize_plate ''ABC123'' = ''ABC123''"
  by code_simp

lemma normalize_XYZ789: "normalize_plate ''XYZ789'' = ''XYZ789''"
  by code_simp

lemma normalize_lower: "normalize_plate '' abc 123'' = ''ABC123''"
  by code_simp

lemma fresh_fields:
  "distance_meters fresh = 10" "speed_limit_kmh fresh = 72" "detection_timeout fresh = 6"
  "pending_detections fresh = Map.empty" "completed_detections fresh = []"
  "violations fresh = []" "violations_file fresh = Absent"
  by (simp_all add: fresh_def init_attributes_def)

lemma init_without_file: "init 10 72 Absent = Calc fresh"
  by (simp add: init_def load_violations_def fresh_def init_attributes_def)

lemma env_at_fields:
  "time_default (env_at t) = t" "time_cleanup (env_at t) = t" "save_outcome (env_at t) = IoOk"
  "measurement_time_now (env_at t) = ''2024-01-01 12:00:00''"
  by (simp_all add: env_at_def)

lemma first_detection_fresh:
  "process_detection e cam P tstamp img fresh =
     (None, snd (process_detection e cam P tstamp img fresh))"
proof -
  have "fst (process_detection e cam P tstamp img fresh) = None"
    by (rule process_detection_no_other) (simp add: fresh_fields)
  then show ?thesis by (metis prod.collapse)
qed

lemma pending_from_fields:
  "pending_detections (pending_from cam) ''ABC123''
     = Some \<lparr>camera_id = cam, timestamp = 0, image_path = Some ''a.jpg''\<rparr>"
  "distance_meters (pending_from cam) = 10" "speed_limit_kmh (pending_from cam) = 72"
  "detection_timeout (pending_from cam) = 6" "completed_detections (pending_from cam) = []"
  "violations (pending_from cam) = []" "violations_file (pending_from cam) = Absent"
  using process_detection_None_fields
          [OF first_detection_fresh [of "env_at 0" cam "''ABC123''" "Some 0" "Some ''a.jpg''"]]
  by (simp_all add: pending_from_def fresh_fields normalize_ABC123 new_entry_def
      effective_timestamp_def)


lemma speeding_speed:
  "map_option m_speed_kmh
     (fst (process_detection (env_at 0.25) 2 ''ABC123'' (Some 0.25) (Some ''b.jpg'') (pending_from 1)))
   = Some 144"
  by (simp add: process_detection_def Let_def cleanup_lookup cleanup_keeps_config
      pending_from_fields normalize_ABC123 effective_timestamp_def env_at_fields
      build_measurement_def)

lemma speeding_lengths:
  "length (completed_detections speeding) = 1" "length (violations speeding) = 1"
proof -
  let ?b = "process_detection (env_at 0.25) 2 ''ABC123'' (Some 0.25) (Some ''b.jpg'') (pending_from 1)"
  obtain mb where mb: "fst ?b = Some mb" "m_speed_kmh mb = 144"
    using speeding_speed by auto
  then have b: "?b = (Some mb, speeding)" by (metis prod.collapse speeding_def)
  from process_detection_Some [OF b] obtain p s2 where
    s2: "s2 = (cleanup_expired_detections (time_cleanup (env_at 0.25)) (pending_from 1))
                \<lparr>completed_detections := completed_detections (pending_from 1) @ [mb]\<rparr>"
    and s': "speeding = (if m_speed_kmh mb > speed_limit_kmh (pending_from 1)
                   then snd (create_violation (env_at 0.25) mb s2) else s2)
                  \<lparr>pending_detections :=
                     (pending_detections (if m_speed_kmh mb > speed_limit_kmh (pending_from 1)
                        then snd (create_violation (env_at 0.25) mb s2) else s2))
                       (normalize_plate ''ABC123'' := None)\<rparr>"
    by blast
  have over: "m_speed_kmh mb > speed_limit_kmh (pending_from 1)"
    using mb(2) by (simp add: pending_from_fields)
  show "length (completed_detections speeding) = 1"
    using over by (simp add: s' s2 create_violation_fields pending_from_fields)
  show "length (violations speeding) = 1"
    using over
    by (simp add: s' s2 create_violation_fields cleanup_keeps_config pending_from_fields)
qed

lemma two_cars_violations:
  "length (violations (process_all two_cars fresh)) = 2"
  by (simp add: two_cars_def seen_def process_detection_def Let_def cleanup_lookup
      cleanup_keeps_config fresh_fields env_at_fields new_entry_def effective_timestamp_def
      build_measurement_def create_violation_def save_violations_def
      normalize_ABC123 normalize_XYZ789)

section \<open>The claims\<close>

subsection \<open>A rejected match\<close>

text \<open>
  Claim C1, as amended. Plate \<open>P\<close> has a pending entry \<open>old\<close> of the other camera and
  the new detection lies less than 0.1 s or more than \<open>detection_timeout\<close> away from it.
  The call returns \<^verbatim>\<open>None\<close> and adds neither a measurement nor a violation. It does not
  keep \<open>old\<close>: the rejected branch has no \<^verbatim>\<open>return\<close>, so control reaches the final
  assignment of \<^verbatim>\<open>process_detection\<close> and the entry for \<open>P\<close> becomes the new detection
  (camera, timestamp, image).
\<close>

theorem rejected_match_replaces_pending:
  assumes "pending_detections s (normalize_plate P) = Some old"
    and "camera_id old = (if cam = 1 then 2 else 1)"
    and "\<bar>effective_timestamp e ts - timestamp old\<bar> < 0.1
         \<or> \<bar>effective_timestamp e ts - timestamp old\<bar> > detection_timeout s"
  shows "fst (process_detection e cam P ts img s) = None
       \<and> completed_detections (snd (process_detection e cam P ts img s))
           = completed_detections s
       \<and> violations (snd (process_detection e cam P ts img s)) = violations s
       \<and> pending_detections (snd (process_detection e cam P ts img s)) (normalize_plate P)
           = Some (new_entry cam (effective_timestamp e ts) img)"
proof -
  have "fst (process_detection e cam P ts img s) = None"
    using assms
    by (auto simp add: process_detection_def Let_def cleanup_lookup cleanup_keeps_config
        split: option.splits if_splits)
  then have "process_detection e cam P ts img s = (None, snd (process_detection e cam P ts img s))"
    by (metis prod.collapse)
  from process_detection_None_fields [OF this] \<open>fst (process_detection e cam P ts img s) = None\<close>
  show ?thesis by simp
qed

theorem rejected_match_replaces_pending_witness:
  "pending_detections (pending_from 2) (normalize_plate ''ABC123'')
     = Some \<lparr>camera_id = 2, timestamp = 0, image_path = Some ''a.jpg''\<rparr>
   \<and> \<bar>effective_timestamp (env_at 5) (Some 7) - 0\<bar> > detection_timeout (pending_from 2)
   \<and> fst (process_detection (env_at 5) 1 ''ABC123'' (Some 7) (Some ''b.jpg'') (pending_from 2))
       = None
   \<and> completed_detections
        (snd (process_detection (env_at 5) 1 ''ABC123'' (Some 7) (Some ''b.jpg'') (pending_from 2)))
       = []
   \<and> pending_detections
        (snd (process_detection (env_at 5) 1 ''ABC123'' (Some 7) (Some ''b.jpg'') (pending_from 2)))
        (normalize_plate ''ABC123'')
       = Some \<lparr>camera_id = 1, timestamp = 7, image_path = Some ''b.jpg''\<rparr>"
  using rejected_match_replaces_pending
          [of "pending_from 2" "''ABC123''"
              "\<lparr>camera_id = 2, timestamp = 0, image_path = Some ''a.jpg''\<rparr>"
              1 "env_at 5" "Some 7" "Some ''b.jpg''"]
  by (simp add: pending_from_fields normalize_ABC123 effective_timestamp_def new_entry_def)

text \<open>
  The claim as first stated (the old entry stays, the new detection is dropped) fails:
  camera 2 saw \<^verbatim>\<open>ABC123\<close> at time 0, camera 1 reports it at time 0.05, and afterwards
  the table holds the detection of camera 1.
\<close>

theorem rejected_match_keeps_old_counterexample:
  "pending_detections (pending_from 2) ''ABC123''
     = Some \<lparr>camera_id = 2, timestamp = 0, image_path = Some ''a.jpg''\<rparr>
   \<and> \<bar>0.05 - 0 :: real\<bar> < 0.1
   \<and> fst (process_detection (env_at 0.05) 1 ''ABC123'' (Some 0.05) (Some ''b.jpg'')
            (pending_from 2)) = None
   \<and> pending_detections
        (snd (process_detection (env_at 0.05) 1 ''ABC123'' (Some 0.05) (Some ''b.jpg'')
               (pending_from 2))) ''ABC123''
       = Some \<lparr>camera_id = 1, timestamp = 0.05, image_path = Some ''b.jpg''\<rparr>
   \<and> pending_detections
        (snd (process_detection (env_at 0.05) 1 ''ABC123'' (Some 0.05) (Some ''b.jpg'')
               (pending_from 2))) ''ABC123''
       \<noteq> pending_detections (pending_from 2) ''ABC123''"
  by (simp add: process_detection_def Let_def cleanup_lookup cleanup_keeps_config
      pending_from_fields normalize_ABC123 effective_timestamp_def new_entry_def env_at_fields)

subsection \<open>Matching across the cameras\<close>



subsection \<open>Two detections by the same camera\<close>

text \<open>
  Claim C3. Two calls for plate \<open>P\<close> from the same camera, from any state: the second
  call returns \<^verbatim>\<open>None\<close>, adds no measurement and leaves the entry for \<open>P\<close> holding its
  own camera, timestamp and image. When \<open>P\<close> was not pending before the first call, the
  first call returns \<^verbatim>\<open>None\<close> as well and the history after both calls is the one
  before them.
\<close>

theorem same_camera_overwrites:
  "fst (process_detection e2 cam P ts2 img2 (snd (process_detection e1 cam P ts1 img1 s))) = None
   \<and> completed_detections
         (snd (process_detection e2 cam P ts2 img2 (snd (process_detection e1 cam P ts1 img1 s))))
       = completed_detections (snd (process_detection e1 cam P ts1 img1 s))
   \<and> pending_detections
         (snd (process_detection e2 cam P ts2 img2 (snd (process_detection e1 cam P ts1 img1 s))))
         (normalize_plate P)
       = Some (new_entry cam (effective_timestamp e2 ts2) img2)
   \<and> (pending_detections s (normalize_plate P) = None \<longrightarrow>
        fst (process_detection e1 cam P ts1 img1 s) = None
        \<and> completed_detections
             (snd (process_detection e2 cam P ts2 img2 (snd (process_detection e1 cam P ts1 img1 s))))
           = completed_detections s)"
proof -
  let ?s1 = "snd (process_detection e1 cam P ts1 img1 s)"
  let ?r2 = "process_detection e2 cam P ts2 img2 ?s1"
  have other: "cam \<noteq> (if cam = 1 then 2 else 1)" by simp
  have none2: "fst ?r2 = None"
  proof (rule process_detection_no_other)
    fix p
    assume "pending_detections ?s1 (normalize_plate P) = Some p"
    with process_detection_pending_after [of e1 cam P ts1 img1 s]
    have "p = new_entry cam (effective_timestamp e1 ts1) img1" by simp
    then show "camera_id p \<noteq> (if cam = 1 then 2 else 1)"
      using other by (simp add: new_entry_def)
  qed
  then have r2: "?r2 = (None, snd ?r2)" by (metis prod.collapse)
  note f2 = process_detection_None_fields [OF r2]
  have fresh_case: "fst (process_detection e1 cam P ts1 img1 s) = None
        \<and> completed_detections (snd ?r2) = completed_detections s"
    if "pending_detections s (normalize_plate P) = None"
  proof -
    have "fst (process_detection e1 cam P ts1 img1 s) = None"
      by (rule process_detection_no_other) (simp add: that)
    then have "process_detection e1 cam P ts1 img1 s = (None, ?s1)" by (metis prod.collapse)
    from process_detection_None_fields(5) [OF this] f2(5)
    show ?thesis using \<open>fst (process_detection e1 cam P ts1 img1 s) = None\<close> by simp
  qed
  show ?thesis using none2 f2(1) f2(5) fresh_case by simp
qed

theorem same_camera_overwrites_witness:
  "pending_detections fresh (normalize_plate ''ABC123'') = None
   \<and> fst (process_detection (env_at 0) 1 ''ABC123'' (Some 0) (Some ''a.jpg'') fresh) = None
   \<and> fst (process_detection (env_at 1) 1 ''ABC123'' (Some 1) (Some ''b.jpg'')
            (snd (process_detection (env_at 0) 1 ''ABC123'' (Some 0) (Some ''a.jpg'') fresh))) = None
   \<and> completed_detections
         (snd (process_detection (env_at 1) 1 ''ABC123'' (Some 1) (Some ''b.jpg'')
            (snd (process_detection (env_at 0) 1 ''ABC123'' (Some 0) (Some ''a.jpg'') fresh)))) = []
   \<and> pending_detections
         (snd (process_detection (env_at 1) 1 ''ABC123'' (Some 1) (Some ''b.jpg'')
            (snd (process_detection (env_at 0) 1 ''ABC123'' (Some 0) (Some ''a.jpg'') fresh))))
         (normalize_plate ''ABC123'')
       = Some \<lparr>camera_id = 1, timestamp = 1, image_path = Some ''b.jpg''\<rparr>"
  using same_camera_overwrites [of "env_at 1" 1 "''ABC123''" "Some 1" "Some ''b.jpg''"
      "env_at 0" "Some 0" "Some ''a.jpg''" fresh]
  by (auto simp add: fresh_fields new_entry_def effective_timestamp_def)

subsection \<open>Expiry\<close>

text \<open>
  Claim C4. Every call first removes each pending entry \<open>d\<close> with
  \<open>now - timestamp d > detection_timeout\<close>, where \<open>now\<close> is the clock reading of the sweep
  and not the timestamp of the incoming detection. Such an entry is gone from the swept
  table, is not matched when it belongs to the incoming plate, and is absent after the
  call when it belongs to another plate. Hence a detection of \<open>P\<close> by camera 1 followed by
  one of camera 2, at a clock reading more than \<open>detection_timeout\<close> after the timestamp
  of the first, returns \<^verbatim>\<open>None\<close>.
\<close>

theorem expired_removed_before_matching:
  "(pending_detections s q = Some d \<and> time_cleanup e - timestamp d > detection_timeout s \<longrightarrow>
      pending_detections (cleanup_expired_detections (time_cleanup e) s) q = None
      \<and> (if q = normalize_plate P
         then fst (process_detection e cam P ts img s) = None
         else pending_detections (snd (process_detection e cam P ts img s)) q = None))
   \<and> (time_cleanup e2 - effective_timestamp e1 ts1 > detection_timeout s \<longrightarrow>
        fst (process_detection e2 2 P ts2 img2 (snd (process_detection e1 1 P ts1 img1 s))) = None)"
proof -
  have sweep: "pending_detections (cleanup_expired_detections (time_cleanup e) s) q = None"
    if "pending_detections s q = Some d" "time_cleanup e - timestamp d > detection_timeout s"
    using that by (simp add: cleanup_lookup)
  have matched: "fst (process_detection e cam P ts img s) = None"
    if "pending_detections s (normalize_plate P) = Some d"
       "time_cleanup e - timestamp d > detection_timeout s"
    by (rule process_detection_no_other) (use that in simp)
  have others: "pending_detections (snd (process_detection e cam P ts img s)) q = None"
    if "pending_detections s q = Some d" "time_cleanup e - timestamp d > detection_timeout s"
       "q \<noteq> normalize_plate P"
    using that sweep by (simp add: process_detection_other_keys)
  have later: "fst (process_detection e2 2 P ts2 img2 (snd (process_detection e1 1 P ts1 img1 s))) = None"
    if late: "time_cleanup e2 - effective_timestamp e1 ts1 > detection_timeout s"
  proof (rule process_detection_no_other)
    fix p
    assume p: "pending_detections (snd (process_detection e1 1 P ts1 img1 s)) (normalize_plate P) = Some p"
      and alive: "time_cleanup e2 - timestamp p
                    \<le> detection_timeout (snd (process_detection e1 1 P ts1 img1 s))"
    from p process_detection_pending_after [of e1 1 P ts1 img1 s]
    have "p = new_entry 1 (effective_timestamp e1 ts1) img1" by simp
    with alive late have False
      by (simp add: new_entry_def process_detection_config)
    then show "camera_id p \<noteq> (if (2::int) = 1 then 2 else 1)" ..
  qed
  show ?thesis using sweep matched others later by auto
qed

theorem expired_removed_before_matching_witness:
  "pending_detections (pending_from 1) ''ABC123''
     = Some \<lparr>camera_id = 1, timestamp = 0, image_path = Some ''a.jpg''\<rparr>
   \<and> time_cleanup (env_at 7) - 0 > detection_timeout (pending_from 1)
   \<and> pending_detections (cleanup_expired_detections (time_cleanup (env_at 7)) (pending_from 1))
        ''ABC123'' = None
   \<and> fst (process_detection (env_at 7) 2 ''ABC123'' (Some 7) (Some ''b.jpg'') (pending_from 1))
       = None
   \<and> pending_detections
        (snd (process_detection (env_at 7) 2 ''XYZ789'' (Some 7) (Some ''b.jpg'') (pending_from 1)))
        ''ABC123'' = None
   \<and> time_cleanup (env_at 7) - effective_timestamp (env_at 0) (Some 0) > detection_timeout fresh
   \<and> fst (process_detection (env_at 7) 2 ''ABC123'' (Some 7) (Some ''b.jpg'')
            (snd (process_detection (env_at 0) 1 ''ABC123'' (Some 0) (Some ''a.jpg'') fresh)))
       = None"
  using expired_removed_before_matching
          [of "pending_from 1" "''ABC123''"
              "\<lparr>camera_id = 1, timestamp = 0, image_path = Some ''a.jpg''\<rparr>"
              "env_at 7" "''ABC123''" 2 "Some 7" "Some ''b.jpg''"
              "env_at 7" "env_at 0" "Some 0" "Some 7" "Some ''b.jpg''" "Some ''a.jpg''"]
        expired_removed_before_matching
          [of "pending_from 1" "''ABC123''"
              "\<lparr>camera_id = 1, timestamp = 0, image_path = Some ''a.jpg''\<rparr>"
              "env_at 7" "''XYZ789''" 2 "Some 7" "Some ''b.jpg''"
              "env_at 7" "env_at 0" "Some 0" "Some 7" "Some ''b.jpg''" "Some ''a.jpg''"]
        expired_removed_before_matching
          [of fresh "''ABC123''"
              "\<lparr>camera_id = 1, timestamp = 0, image_path = Some ''a.jpg''\<rparr>"
              "env_at 7" "''ABC123''" 2 "Some 7" "Some ''b.jpg''"
              "env_at 7" "env_at 0" "Some 0" "Some 7" "Some ''b.jpg''" "Some ''a.jpg''"]
  by (simp add: pending_from_fields fresh_fields env_at_fields normalize_ABC123 normalize_XYZ789
      effective_timestamp_def)

subsection \<open>Violations and fines\<close>



text \<open>
  Claim C6. With \<open>excess = speed_kmh - speed_limit_kmh > 0\<close> the fine is 100 for
  \<open>excess \<le> 10\<close>, 200 for \<open>10 < excess \<le> 20\<close>, 400 for \<open>20 < excess \<le> 30\<close> and 600 for
  \<open>excess > 30\<close>; an excess of exactly 30 costs 400.
\<close>

theorem fine_tiers:
  assumes "speed_kmh - speed_limit_kmh s > 0"
  shows "(speed_kmh - speed_limit_kmh s \<le> 10 \<longrightarrow> calculate_fine s speed_kmh = 100)
       \<and> (10 < speed_kmh - speed_limit_kmh s \<and> speed_kmh - speed_limit_kmh s \<le> 20
            \<longrightarrow> calculate_fine s speed_kmh = 200)
       \<and> (20 < speed_kmh - speed_limit_kmh s \<and> speed_kmh - speed_limit_kmh s \<le> 30
            \<longrightarrow> calculate_fine s speed_kmh = 400)
       \<and> (30 < speed_kmh - speed_limit_kmh s \<longrightarrow> calculate_fine s speed_kmh = 600)"
  by (simp add: calculate_fine_def Let_def)

theorem fine_tiers_witness:
  "speed_limit_kmh fresh = 72
   \<and> calculate_fine fresh 77 = 100 \<and> calculate_fine fresh 82 = 100
   \<and> calculate_fine fresh 87 = 200 \<and> calculate_fine fresh 92 = 200
   \<and> calculate_fine fresh 97 = 400 \<and> calculate_fine fresh 102 = 400
   \<and> calculate_fine fresh 107 = 600"
  using fine_tiers [of 77 fresh] fine_tiers [of 82 fresh] fine_tiers [of 87 fresh]
    fine_tiers [of 92 fresh] fine_tiers [of 97 fresh] fine_tiers [of 102 fresh]
    fine_tiers [of 107 fresh]
  by (simp add: fresh_fields)

subsection \<open>Statistics\<close>

text \<open>
  While \<^verbatim>\<open>self.violations\<close> is a list, \<^verbatim>\<open>get_statistics\<close> returns the all-zero record on
  an empty history and does not raise on any history: both divisions are reached only
  with a positive number of measurements.
\<close>

lemma statistics_with_list:
  "(completed_detections c = [] \<longrightarrow>
      get_statistics (Calc c) = Inr \<lparr>total_measurements = 0, total_violations = 0,
                                     violation_percentage = 0, average_speed = 0, max_speed = 0\<rparr>)
   \<and> (\<exists>st. get_statistics (Calc c) = Inr st)"
  by (cases "completed_detections c")
     (simp_all add: get_statistics_def len_violations_def attributes_def Let_def truediv_def
        max_of_def)

lemma statistics_restarted:
  "completed_detections (attributes restarted) = [] \<and> len_violations restarted = Inr 1
   \<and> get_statistics restarted
       = Inr \<lparr>total_measurements = 0, total_violations = 0,
              violation_percentage = 0, average_speed = 0, max_speed = 0\<rparr>"
  by (simp add: restarted_def init_def init_attributes_def load_violations_def
      get_statistics_def len_violations_def attributes_def)

text \<open>
  Claim C7 at a violations file that holds \<^verbatim>\<open>null\<close>. The constructor leaves
  \<^verbatim>\<open>self.violations = None\<close> and an empty history, and \<^verbatim>\<open>get_statistics\<close> raises
  \<^verbatim>\<open>TypeError\<close> at \<^verbatim>\<open>len(self.violations)\<close>, before the test for an empty history; it
  does not return the all-zero record.
\<close>

theorem statistics_raises_after_null_file:
  "started_on_null = Miscast (init_attributes 10 72 (StoredOther JNull)) JNull
   \<and> completed_detections (attributes started_on_null) = []
   \<and> get_statistics started_on_null = Inl TypeError"
  by (simp add: started_on_null_def init_def init_attributes_def load_violations_def
      get_statistics_def len_violations_def attributes_def)

subsection \<open>Recent entries\<close>

text \<open>
  Claim C8 at the count 0. The slice \<^verbatim>\<open>xs[-0:]\<close> is \<^verbatim>\<open>xs[0:]\<close>: on a calculator
  with one measurement and one violation, \<^verbatim>\<open>get_recent_measurements(0)\<close> and
  \<^verbatim>\<open>get_violations(0)\<close> return the whole list, not its last 0 entries. For a positive
  count both return the last entries, in order (the two lemmas on slices above).
\<close>

theorem zero_count_returns_everything:
  "length (completed_detections speeding) = 1
   \<and> get_recent_measurements 0 speeding = completed_detections speeding
   \<and> length (get_recent_measurements 0 speeding) = 1
   \<and> length (violations speeding) = 1
   \<and> get_violations (Some 0) speeding = violations speeding
   \<and> length (get_violations (Some 0) speeding) = 1"
  by (simp add: get_recent_measurements_def get_violations_def slice_from_def speeding_lengths)

subsection \<open>Violation identifiers\<close>

text \<open>
  Claim C9. A new violation gets the identifier \<open>length violations + 1\<close>, the violations
  loaded at start included. Over any run of calls the list of violations only grows at
  its end, and the identifiers of the violations the run creates are the consecutive
  numbers from \<open>length violations + 1\<close> on, hence strictly increasing, and they start at
  1 when no violation was loaded.
\<close>

theorem violation_ids_sequential:
  "v_id (fst (create_violation e m s)) = length (violations s) + 1
   \<and> (\<exists>new. violations (process_all ds s) = violations s @ new
         \<and> map v_id new = [length (violations s) + 1 ..< length (violations s) + 1 + length new]
         \<and> sorted_wrt (<) (map v_id new))"
proof -
  from process_all_violations [of ds s] obtain new where
    new: "violations (process_all ds s) = violations s @ new"
      "map v_id new = [length (violations s) + 1 ..< length (violations s) + 1 + length new]"
    by blast
  have "sorted_wrt (<) (map v_id new)"
    unfolding new(2) by (rule sorted_wrt_upt)
  with new create_violation_id [of e m s] show ?thesis by blast
qed

theorem violation_ids_sequential_witness:
  "map v_id (violations (process_all two_cars fresh)) = [1, 2]"
proof -
  from violation_ids_sequential [of "env_at 0.25" "build_measurement (env_at 0.25) fresh ''ABC123'' (new_entry 1 0 None) 0.25 None" fresh two_cars]
  obtain new where new: "violations (process_all two_cars fresh) = violations fresh @ new"
    "map v_id new = [length (violations fresh) + 1 ..< length (violations fresh) + 1 + length new]"
    by blast
  from new(1) have "length new = 2"
    using two_cars_violations by (simp add: fresh_fields)
  moreover have "[Suc 0 ..< 3] = [1, 2]" by code_simp
  ultimately show ?thesis using new by (simp add: fresh_fields)
qed

subsection \<open>Symmetry of the match\<close>



end
